theory Spec2Isabelle
  imports Main "HOL-Library.Word"
begin

unbundle bit_operations_syntax

section \<open>JavaScript values used by the framework\<close>

text \<open>
  Strings are modelled by their UTF-8 bytes (\<^typ>\<open>string\<close>).  A JavaScript string is
  falsy exactly when it is empty and a number exactly when it is zero; a \<open>Map\<close> keeps its
  entries in insertion order, \<open>set\<close> on a present key replaces the value in place.
\<close>

definition truthy :: "string \<Rightarrow> bool" where
  "truthy s = (s \<noteq> [])"

fun map_get :: "('k \<times> 'v) list \<Rightarrow> 'k \<Rightarrow> 'v option" where
  "map_get [] k = None"
| "map_get ((k', v) # m) k = (if k' = k then Some v else map_get m k)"

definition map_has :: "('k \<times> 'v) list \<Rightarrow> 'k \<Rightarrow> bool" where
  "map_has m k = (map_get m k \<noteq> None)"

fun map_set :: "('k \<times> 'v) list \<Rightarrow> 'k \<Rightarrow> 'v \<Rightarrow> ('k \<times> 'v) list" where
  "map_set [] k v = [(k, v)]"
| "map_set ((k', v') # m) k v = (if k' = k then (k, v) # m else (k', v') # map_set m k v)"

section \<open>Character definitions and their JSON serialization\<close>

text \<open>
  \<open>ElizaCharacterOptions\<close> (lines 86-105).  The entries of \<open>messageExamples\<close> and of a
  function's \<open>examples\<close> are the \<open>{user, content}\<close> pairs of strings that
  \<open>validateCharacter\<close> requires.  \<open>JSON.stringify\<close> writes the properties of an object in
  the order in which they were created; the model writes them in the order of the interface
  declaration.
\<close>

record Example =
  user :: string
  content :: string

record FunctionParameter =
  name :: string
  description :: string
  type :: string

record CharacterFunction =
  name :: string
  description :: string
  similes :: "string list"
  examples :: "Example list list"
  parameters :: "FunctionParameter list"

record ElizaCharacterOptions =
  name :: string
  bio :: "string list"
  lore :: "string list"
  knowledge :: "string list"
  topics :: "string list"
  adjectives :: "string list"
  style :: "string list"
  messageExamples :: "Example list list"
  functions' :: "CharacterFunction list"

definition hexdigit :: "nat \<Rightarrow> char" where
  "hexdigit n = ''0123456789abcdef'' ! (n mod 16)"

text \<open>\<open>JSON.stringify\<close> on a string (QuoteJSONString): the quote, the backslash and the
  control characters are escaped, every other byte is copied.\<close>

definition json_escape :: "char \<Rightarrow> string" where
  "json_escape c =
     (if c = CHR ''\"'' then [CHR 0x5C, CHR ''\"'']
      else if c = CHR 0x5C then [CHR 0x5C, CHR 0x5C]
      else if c = CHR 0x08 then [CHR 0x5C, CHR ''b'']
      else if c = CHR 0x0C then [CHR 0x5C, CHR ''f'']
      else if c = CHR 0x0A then [CHR 0x5C, CHR ''n'']
      else if c = CHR 0x0D then [CHR 0x5C, CHR ''r'']
      else if c = CHR 0x09 then [CHR 0x5C, CHR ''t'']
      else if (of_char c :: nat) < 32
        then [CHR 0x5C, CHR ''u'', CHR ''0'', CHR ''0'', hexdigit (of_char c div 16), hexdigit (of_char c)]
      else [c])"

definition json_string :: "string \<Rightarrow> string" where
  "json_string s = [CHR ''\"''] @ concat (map json_escape s) @ [CHR ''\"'']"

fun json_commas :: "string list \<Rightarrow> string" where
  "json_commas [] = []"
| "json_commas [x] = x"
| "json_commas (x # y # ys) = x @ [CHR '',''] @ json_commas (y # ys)"

definition json_array :: "string list \<Rightarrow> string" where
  "json_array items = [CHR ''[''] @ json_commas items @ [CHR '']'']"

definition json_object :: "(string \<times> string) list \<Rightarrow> string" where
  "json_object kvs =
     [CHR ''{''] @ json_commas (map (\<lambda>(k, v). json_string k @ [CHR '':''] @ v) kvs) @ [CHR ''}'']"

definition json_strings :: "string list \<Rightarrow> string" where
  "json_strings xs = json_array (map json_string xs)"

definition json_example :: "Example \<Rightarrow> string" where
  "json_example e = json_object [(''user'', json_string (user e)), (''content'', json_string (content e))]"

definition json_transcripts :: "Example list list \<Rightarrow> string" where
  "json_transcripts ts = json_array (map (\<lambda>t. json_array (map json_example t)) ts)"

definition json_parameter :: "FunctionParameter \<Rightarrow> string" where
  "json_parameter p =
     json_object [(''name'', json_string (FunctionParameter.name p)),
                  (''description'', json_string (FunctionParameter.description p)),
                  (''type'', json_string (type p))]"

definition json_function :: "CharacterFunction \<Rightarrow> string" where
  "json_function f =
     json_object [(''name'', json_string (CharacterFunction.name f)),
                  (''description'', json_string (CharacterFunction.description f)),
                  (''similes'', json_strings (similes f)),
                  (''examples'', json_transcripts (examples f)),
                  (''parameters'', json_array (map json_parameter (parameters f)))]"

definition JSON_stringify :: "ElizaCharacterOptions \<Rightarrow> string" where
  "JSON_stringify d =
     json_object [(''name'', json_string (ElizaCharacterOptions.name d)),
                  (''bio'', json_strings (bio d)),
                  (''lore'', json_strings (lore d)),
                  (''knowledge'', json_strings (knowledge d)),
                  (''topics'', json_strings (topics d)),
                  (''adjectives'', json_strings (adjectives d)),
                  (''style'', json_strings (style d)),
                  (''messageExamples'', json_transcripts (messageExamples d)),
                  (''functions'', json_array (map json_function (functions' d)))]"

section \<open>SHA-256 and the personality hash\<close>

text \<open>
  \<open>crypto.createHash("sha256").update(payload).digest("hex")\<close>: SHA-256 as in FIPS 180-4.
  32-bit words are natural numbers below \<open>2 ^ 32\<close>, with the wrap-around of the modular
  additions written out; the message is the list of the payload's bytes.  The round
  constants and the initial hash value are written in decimal.
\<close>

definition add32 :: "nat \<Rightarrow> nat \<Rightarrow> nat" where
  "add32 a b = (a + b) mod 4294967296"

definition rotr :: "nat \<Rightarrow> nat \<Rightarrow> nat" where
  "rotr n x = x div 2 ^ n + (x mod 2 ^ n) * 2 ^ (32 - n)"

definition K256 :: "nat list" where
  "K256 =
    [1116352408, 1899447441, 3049323471, 3921009573, 961987163, 1508970993, 2453635748, 2870763221,
     3624381080, 310598401, 607225278, 1426881987, 1925078388, 2162078206, 2614888103, 3248222580,
     3835390401, 4022224774, 264347078, 604807628, 770255983, 1249150122, 1555081692, 1996064986,
     2554220882, 2821834349, 2952996808, 3210313671, 3336571891, 3584528711, 113926993, 338241895,
     666307205, 773529912, 1294757372, 1396182291, 1695183700, 1986661051, 2177026350, 2456956037,
     2730485921, 2820302411, 3259730800, 3345764771, 3516065817, 3600352804, 4094571909, 275423344,
     430227734, 506948616, 659060556, 883997877, 958139571, 1322822218, 1537002063, 1747873779,
     1955562222, 2024104815, 2227730452, 2361852424, 2428436474, 2756734187, 3204031479, 3329325298]"

definition H0 :: "nat list" where
  "H0 = [1779033703, 3144134277, 1013904242, 2773480762, 1359893119, 2600822924, 528734635, 1541459225]"

definition Ch :: "nat \<Rightarrow> nat \<Rightarrow> nat \<Rightarrow> nat" where
  "Ch x y z = (x AND y) XOR ((4294967295 - x) AND z)"

definition Maj :: "nat \<Rightarrow> nat \<Rightarrow> nat \<Rightarrow> nat" where
  "Maj x y z = (x AND y) XOR (x AND z) XOR (y AND z)"

definition Sigma0 :: "nat \<Rightarrow> nat" where
  "Sigma0 x = rotr 2 x XOR rotr 13 x XOR rotr 22 x"

definition Sigma1 :: "nat \<Rightarrow> nat" where
  "Sigma1 x = rotr 6 x XOR rotr 11 x XOR rotr 25 x"

definition sigma0 :: "nat \<Rightarrow> nat" where
  "sigma0 x = rotr 7 x XOR rotr 18 x XOR (x div 2 ^ 3)"

definition sigma1 :: "nat \<Rightarrow> nat" where
  "sigma1 x = rotr 17 x XOR rotr 19 x XOR (x div 2 ^ 10)"

text \<open>The message schedule is kept newest word first: \<open>ws ! 1\<close> is \<open>W[t-2]\<close>,
  \<open>ws ! 15\<close> is \<open>W[t-16]\<close>.\<close>

definition wnext :: "nat list \<Rightarrow> nat" where
  "wnext ws = (sigma1 (ws ! 1) + ws ! 6 + sigma0 (ws ! 14) + ws ! 15) mod 4294967296"

fun schedule :: "nat list \<Rightarrow> nat list \<Rightarrow> nat list" where
  "schedule [] ws = ws"
| "schedule (k # ks) ws = schedule ks (wnext ws # ws)"

definition T1 :: "nat list \<Rightarrow> nat \<Rightarrow> nat \<Rightarrow> nat" where
  "T1 s k w = (s ! 7 + Sigma1 (s ! 4) + Ch (s ! 4) (s ! 5) (s ! 6) + k + w) mod 4294967296"

definition T2 :: "nat list \<Rightarrow> nat" where
  "T2 s = (Sigma0 (s ! 0) + Maj (s ! 0) (s ! 1) (s ! 2)) mod 4294967296"

definition round1 :: "nat \<Rightarrow> nat \<Rightarrow> nat list \<Rightarrow> nat list" where
  "round1 k w s =
     [add32 (T1 s k w) (T2 s), s ! 0, s ! 1, s ! 2, add32 (s ! 3) (T1 s k w), s ! 4, s ! 5, s ! 6]"

fun rounds :: "nat list \<Rightarrow> nat list \<Rightarrow> nat list \<Rightarrow> nat list" where
  "rounds (k # ks) (w # ws) s = rounds ks ws (round1 k w s)"
| "rounds ks ws s = s"

definition be32 :: "nat list \<Rightarrow> nat" where
  "be32 bs = foldl (\<lambda>acc b. acc * 256 + b) 0 bs"

fun words_of :: "nat list \<Rightarrow> nat list" where
  "words_of (a # b # c # d # bs) = be32 [a, b, c, d] # words_of bs"
| "words_of bs = []"

definition compress :: "nat list \<Rightarrow> nat list \<Rightarrow> nat list" where
  "compress hs block =
     map2 add32 hs (rounds K256 (rev (schedule (drop 16 K256) (rev (words_of block)))) hs)"

fun blocks :: "nat list \<Rightarrow> nat list \<Rightarrow> nat list" where
  "blocks hs [] = hs"
| "blocks hs (b # bs) = blocks (compress hs (take 64 (b # bs))) (drop 64 (b # bs))"

definition len64 :: "nat \<Rightarrow> nat list" where
  "len64 l = [l div 2 ^ 56 mod 256, l div 2 ^ 48 mod 256, l div 2 ^ 40 mod 256, l div 2 ^ 32 mod 256,
              l div 2 ^ 24 mod 256, l div 2 ^ 16 mod 256, l div 2 ^ 8 mod 256, l mod 256]"

definition pad :: "nat list \<Rightarrow> nat list" where
  "pad m = m @ [128] @ replicate ((119 - length m mod 64) mod 64) 0 @ len64 (8 * length m)"

definition hex32 :: "nat \<Rightarrow> string" where
  "hex32 w = [hexdigit (w div 16 ^ 7), hexdigit (w div 16 ^ 6), hexdigit (w div 16 ^ 5),
              hexdigit (w div 16 ^ 4), hexdigit (w div 16 ^ 3), hexdigit (w div 16 ^ 2),
              hexdigit (w div 16), hexdigit w]"

definition sha256_hex :: "string \<Rightarrow> string" where
  "sha256_hex payload = concat (map hex32 (blocks H0 (pad (map of_char payload))))"

text \<open>\<open>generatePersonalityHash\<close> (index.ts, lines 31-34).\<close>

definition generatePersonalityHash :: "ElizaCharacterOptions \<Rightarrow> string" where
  "generatePersonalityHash data = sha256_hex (JSON_stringify data)"

section \<open>Data model\<close>

text \<open>\<open>User\<close>, \<open>Character\<close> and \<open>Conversation\<close> come from the SDK core; only the fields
  that index.ts reads are kept.  \<open>new_ElizaCharacter\<close> is the constructor of
  \<open>ElizaCharacter\<close> (lines 107-114): the hash is computed from the options.\<close>

record User =
  id' :: string
  name :: string

record ElizaCharacter =
  name :: string
  hash :: string
  options :: ElizaCharacterOptions

definition new_ElizaCharacter :: "string \<Rightarrow> ElizaCharacterOptions \<Rightarrow> ElizaCharacter" where
  "new_ElizaCharacter n opts =
     \<lparr>ElizaCharacter.name = n, hash = generatePersonalityHash opts, options = opts\<rparr>"

record Style =
  all' :: "string list"
  post :: "string list"
  chat :: "string list"

record ProcessedElizaCharacterOptions =
  name :: string
  bio :: "string list"
  lore :: "string list"
  knowledge :: "string list"
  messageExamples :: "Example list list"
  functions' :: "CharacterFunction list"
  topics :: "string list"
  adjectives :: "string list"
  style :: Style
  modelProvider :: string
  postExamples :: "string list"
  clients :: "string list"
  plugins :: "string list"

definition new_ProcessedElizaCharacterOptions ::
  "string \<Rightarrow> string \<Rightarrow> ElizaCharacterOptions \<Rightarrow> ProcessedElizaCharacterOptions" where
  "new_ProcessedElizaCharacterOptions n provider opts =
     \<lparr>ProcessedElizaCharacterOptions.name = n,
      bio = ElizaCharacterOptions.bio opts,
      lore = ElizaCharacterOptions.lore opts,
      knowledge = ElizaCharacterOptions.knowledge opts,
      messageExamples = ElizaCharacterOptions.messageExamples opts,
      functions' = ElizaCharacterOptions.functions' opts,
      topics = ElizaCharacterOptions.topics opts,
      adjectives = ElizaCharacterOptions.adjectives opts,
      style = \<lparr>all' = ElizaCharacterOptions.style opts, post = [], chat = []\<rparr>,
      modelProvider = provider,
      postExamples = [],
      clients = [],
      plugins = []\<rparr>"

record ConversationData =
  busy :: "bool option"
  finished :: "bool option"

record ElizaConversation =
  id' :: nat
  secret :: string
  character :: ElizaCharacter
  users :: "User list"
  persistenceToken :: "string option"
  data :: ConversationData

definition no_data :: ConversationData where
  "no_data = \<lparr>busy = None, finished = None\<rparr>"

subsection \<open>The agent runtime\<close>

text \<open>
  Modelled from the spec: the agent runtime of section 6, an external collaborator.  A
  runtime is its \<open>agentId\<close>, its construction arguments, the mutable \<open>providers\<close> and
  \<open>actions\<close> lists, and the sequence of the calls made on it.  A context provider is
  represented by the string its \<open>get\<close> renders.  Message ids and timestamps, which come
  from the clock, are left out of \<open>Memory\<close>.
\<close>

record ActionData =
  message :: string
  parameters :: "(string \<times> string) list"

record Content =
  text' :: string
  action :: "string option"
  source :: "string option"
  data :: "ActionData option"

record Memory =
  agentId :: string
  userId :: string
  roomId :: string
  content :: Content

record ActionExample =
  user :: string
  content :: Content

record Action =
  name :: string
  description :: string
  similes :: "string list"
  examples :: "ActionExample list list"
  parameters :: "FunctionParameter list"
  suppressInitialMessage :: bool

datatype RuntimeCall =
    Initialize
  | Stop
  | EnsureConnection string string string string string
  | AddEmbeddingToMemory Memory
  | CreateMemory Memory
  | ComposeState Memory string string string string
  | UpdateRecentMessageState
  | ProcessActions Memory "Memory list"
  | Evaluate Memory

record AgentRuntime =
  agentId :: string
  character :: ProcessedElizaCharacterOptions
  token :: string
  modelProvider :: string
  cacheKey :: string
  providers :: "string list"
  actions :: "Action list"
  calls :: "RuntimeCall list"

definition new_AgentRuntime ::
  "string \<Rightarrow> ProcessedElizaCharacterOptions \<Rightarrow> string \<Rightarrow> string \<Rightarrow> string \<Rightarrow> AgentRuntime" where
  "new_AgentRuntime aid processed tok provider key =
     \<lparr>AgentRuntime.agentId = aid, character = processed, token = tok, modelProvider = provider,
      cacheKey = key, providers = [], actions = [], calls = []\<rparr>"

definition called :: "RuntimeCall \<Rightarrow> AgentRuntime \<Rightarrow> AgentRuntime" where
  "called c rt = rt\<lparr>calls := calls rt @ [c]\<rparr>"

definition stopped :: "AgentRuntime \<Rightarrow> bool" where
  "stopped rt = (Stop \<in> set (calls rt))"

subsection \<open>The storage adapter\<close>

text \<open>
  Modelled from the spec: the storage adapter of section 6, an external collaborator.  It
  holds the ids of the rooms that exist and the participant rows \<open>(userId, roomId)\<close>;
  \<open>getParticipantsForRoom\<close> yields a set, so adding a present participant changes nothing.
  \<open>getRoom\<close> answers with the room id when the room exists.  The id that \<open>createRoom\<close>
  returns is chosen by the adapter: it is the argument \<open>rid\<close>.  Every mutating call is
  appended to \<open>calls\<close>.
\<close>

datatype AdapterCall =
    Init
  | CreateRoom "string option" string
  | RemoveRoom string
  | AddParticipant string string
  | RemoveParticipant string string

record Adapter =
  rooms :: "string list"
  participants :: "(string \<times> string) list"
  calls :: "AdapterCall list"

definition init :: "Adapter \<Rightarrow> Adapter" where
  "init db = db\<lparr>Adapter.calls := Adapter.calls db @ [Init]\<rparr>"

definition createRoom :: "string option \<Rightarrow> string \<Rightarrow> Adapter \<Rightarrow> Adapter" where
  "createRoom tok rid db =
     db\<lparr>rooms := List.insert rid (rooms db), Adapter.calls := Adapter.calls db @ [CreateRoom tok rid]\<rparr>"

definition removeRoom :: "string \<Rightarrow> Adapter \<Rightarrow> Adapter" where
  "removeRoom rid db =
     db\<lparr>rooms := removeAll rid (rooms db), Adapter.calls := Adapter.calls db @ [RemoveRoom rid]\<rparr>"


definition getParticipantsForRoom :: "Adapter \<Rightarrow> string \<Rightarrow> string list" where
  "getParticipantsForRoom db rid = remdups (map fst (filter (\<lambda>row. snd row = rid) (participants db)))"

definition addParticipant :: "string \<Rightarrow> string \<Rightarrow> Adapter \<Rightarrow> Adapter" where
  "addParticipant uid rid db =
     db\<lparr>participants := List.insert (uid, rid) (participants db),
        Adapter.calls := Adapter.calls db @ [AddParticipant uid rid]\<rparr>"

definition removeParticipant :: "string \<Rightarrow> string \<Rightarrow> Adapter \<Rightarrow> Adapter" where
  "removeParticipant uid rid db =
     db\<lparr>participants := removeAll (uid, rid) (participants db),
        Adapter.calls := Adapter.calls db @ [RemoveParticipant uid rid]\<rparr>"

subsection \<open>The framework state\<close>

text \<open>
  \<open>ElizaFramework\<close> (lines 196-220) with its options and the module-level flag
  \<open>initialized\<close>.  The \<open>{runtime, character}\<close> objects of \<open>runtimeCharacterMaps\<close> are shared
  with \<open>roomMaps\<close>; they are never mutated, only the runtime they point to is, so a runtime
  is a reference into the store \<open>runtimes\<close>.
\<close>

record RuntimeCharacter =
  runtime :: nat
  character :: ElizaCharacter

record RoomData =
  users :: "User list"
  runtimeCharacterMap :: RuntimeCharacter

record ElizaFramework =
  adapter :: Adapter
  provider :: string
  apiKey :: string
  initialized :: bool
  characters :: "ElizaCharacter list"
  runtimeCharacterMaps :: "(string \<times> RuntimeCharacter) list"
  roomMaps :: "(string \<times> RoomData) list"
  conversationCount :: nat
  conversationIdMap :: "(nat \<times> string) list"
  runtimes :: "AgentRuntime list"

definition new_ElizaFramework :: "Adapter \<Rightarrow> string \<Rightarrow> string \<Rightarrow> bool \<Rightarrow> ElizaFramework" where
  "new_ElizaFramework db prov key started =
     \<lparr>adapter = db, provider = prov, apiKey = key, initialized = started, characters = [],
      runtimeCharacterMaps = [], roomMaps = [], conversationCount = 0, conversationIdMap = [],
      runtimes = []\<rparr>"

definition on_runtime :: "nat \<Rightarrow> (AgentRuntime \<Rightarrow> AgentRuntime) \<Rightarrow> ElizaFramework \<Rightarrow> ElizaFramework" where
  "on_runtime r f fw = fw\<lparr>runtimes := (runtimes fw)[r := f (runtimes fw ! r)]\<rparr>"

datatype error =
    AlreadyInitialized
  | ValidationFailed
  | CharacterNotFound
  | CharacterNotFoundWhenSetting

section \<open>Operations of the framework\<close>

text \<open>Each operation takes the framework state and returns the new one.  A thrown error is
  \<open>Inl\<close>; \<open>undefined\<close> is \<open>None\<close>.\<close>

definition start :: "ElizaFramework \<Rightarrow> error + ElizaFramework" where
  "start fw =
     (if initialized fw then Inl AlreadyInitialized
      else Inr (fw\<lparr>adapter := init (adapter fw), initialized := True\<rparr>))"



text \<open>\<open>getOrCreateCharacter\<close> (lines 284-314).  \<open>aid\<close> is the \<open>agentId\<close> of the runtime
  that \<open>new AgentRuntime\<close> constructs.\<close>

definition getOrCreateCharacter ::
  "string \<Rightarrow> ElizaCharacterOptions \<Rightarrow> ElizaFramework \<Rightarrow> ElizaCharacter \<times> ElizaFramework" where
  "getOrCreateCharacter aid c fw =
     (if map_has (runtimeCharacterMaps fw) (generatePersonalityHash c)
      then (new_ElizaCharacter (ElizaCharacterOptions.name c) c, fw)
      else
        (new_ElizaCharacter (ElizaCharacterOptions.name c) c,
         fw\<lparr>runtimes := runtimes fw @
                [new_AgentRuntime aid
                   (new_ProcessedElizaCharacterOptions (ElizaCharacterOptions.name c) (provider fw) c)
                   (apiKey fw) (provider fw) (generatePersonalityHash c)],
            runtimeCharacterMaps :=
              map_set (runtimeCharacterMaps fw) (generatePersonalityHash c)
                \<lparr>runtime = length (runtimes fw),
                 character = new_ElizaCharacter (ElizaCharacterOptions.name c) c\<rparr>\<rparr>))"

definition containsCharacter :: "ElizaCharacter \<Rightarrow> ElizaFramework \<Rightarrow> bool" where
  "containsCharacter k fw = map_has (runtimeCharacterMaps fw) (generatePersonalityHash (options k))"

definition loadCharacter :: "ElizaCharacter \<Rightarrow> ElizaFramework \<Rightarrow> error + ElizaFramework" where
  "loadCharacter k fw =
     (if \<not> containsCharacter k fw then Inl CharacterNotFound
      else
        (case map_get (runtimeCharacterMaps fw) (generatePersonalityHash (options k)) of
           None \<Rightarrow> Inr (fw\<lparr>characters := characters fw @ [k]\<rparr>)
         | Some characterData \<Rightarrow>
             Inr (on_runtime (runtime characterData) (called Initialize)
                    (fw\<lparr>characters := characters fw @ [k]\<rparr>))))"

definition getCharacterHash :: "ElizaCharacter \<Rightarrow> string" where
  "getCharacterHash k = generatePersonalityHash (options k)"

definition stop :: "ElizaFramework \<Rightarrow> ElizaFramework" where
  "stop fw = fold (\<lambda>entry. on_runtime (runtime (snd entry)) (called Stop)) (runtimeCharacterMaps fw) fw"

text \<open>\<open>setConversationUsers\<close> (lines 499-538): the two loops over the participants read
  before the first removal.\<close>

fun removeStale :: "User list \<Rightarrow> string \<Rightarrow> string list \<Rightarrow> Adapter \<Rightarrow> Adapter" where
  "removeStale us rid [] db = db"
| "removeStale us rid (participant # ps) db =
     removeStale us rid ps
       (if find (\<lambda>u. User.id' u = participant) us = None
        then removeParticipant participant rid db else db)"

fun addMissing :: "nat \<Rightarrow> string list \<Rightarrow> string \<Rightarrow> User list \<Rightarrow> ElizaFramework \<Rightarrow> ElizaFramework" where
  "addMissing r ps rid [] fw = fw"
| "addMissing r ps rid (u # us) fw =
     addMissing r ps rid us
       (if User.id' u \<notin> set ps
        then
          (let fw1 = on_runtime r
                 (called (EnsureConnection (User.id' u) rid (User.name u) (User.name u) ''direct'')) fw
           in fw1\<lparr>adapter := addParticipant (User.id' u) rid (adapter fw1)\<rparr>)
        else fw)"

definition setConversationUsers :: "ElizaConversation \<Rightarrow> User list \<Rightarrow> ElizaFramework \<Rightarrow> ElizaFramework" where
  "setConversationUsers conversation us fw =
     (case map_get (roomMaps fw) (secret conversation) of
        None \<Rightarrow> fw
      | Some roomData \<Rightarrow>
          (let fw1 = fw\<lparr>roomMaps :=
                        map_set (roomMaps fw) (secret conversation) (roomData\<lparr>RoomData.users := us\<rparr>)\<rparr>;
               ps = getParticipantsForRoom (adapter fw1) (secret conversation);
               fw2 = fw1\<lparr>adapter := removeStale us (secret conversation) ps (adapter fw1)\<rparr>
           in addMissing (runtime (runtimeCharacterMap roomData)) ps (secret conversation) us fw2))"

text \<open>\<open>createConversation\<close> (lines 348-391).  \<open>rid\<close> is the room id that
  \<open>db.createRoom(persistenceToken)\<close> returns.\<close>

definition createConversation ::
  "string \<Rightarrow> ElizaCharacter \<Rightarrow> User list \<Rightarrow> string option \<Rightarrow> ElizaFramework
     \<Rightarrow> ElizaConversation option \<times> ElizaFramework" where
  "createConversation rid k us tok fw =
     (case map_get (runtimeCharacterMaps fw) (generatePersonalityHash (options k)) of
        None \<Rightarrow> (None, fw)
      | Some agent \<Rightarrow>
          (let db = addParticipant (AgentRuntime.agentId (runtimes fw ! runtime agent)) rid
                      (createRoom tok rid (adapter fw));
               i = conversationCount fw + 1;
               conversation = \<lparr>ElizaConversation.id' = i, secret = rid, character = k, users = [],
                               persistenceToken = tok, data = no_data\<rparr>;
               fw1 = fw\<lparr>adapter := db,
                        conversationCount := i,
                        conversationIdMap := map_set (conversationIdMap fw) i rid,
                        roomMaps := map_set (roomMaps fw) rid
                                      \<lparr>RoomData.users = [], runtimeCharacterMap = agent\<rparr>\<rparr>
           in (Some conversation, setConversationUsers conversation us fw1)))"

definition finishConversation :: "ElizaConversation \<Rightarrow> ElizaFramework \<Rightarrow> ElizaFramework" where
  "finishConversation conversation fw =
     fw\<lparr>adapter := removeRoom (secret conversation) (adapter fw)\<rparr>"


text \<open>\<open>setConversationCharacter\<close> (lines 540-575).  The loop over \<open>roomMaps\<close> compares the
  hash of each room's current character with the hash of the character passed in.\<close>

definition setConversationCharacter ::
  "ElizaConversation \<Rightarrow> ElizaCharacter \<Rightarrow> ElizaFramework \<Rightarrow> error + ElizaFramework" where
  "setConversationCharacter conversation k fw =
     (case map_get (roomMaps fw) (secret conversation) of
        None \<Rightarrow> Inr fw
      | Some roomData \<Rightarrow>
          (case map_get (runtimeCharacterMaps fw) (generatePersonalityHash (options k)) of
             None \<Rightarrow> Inl CharacterNotFoundWhenSetting
           | Some charMap \<Rightarrow>
               (let shouldStop =
                      \<not> list_ex (\<lambda>entry. hash (RuntimeCharacter.character (runtimeCharacterMap (snd entry))) = hash k)
                           (roomMaps fw);
                    fw1 = (if shouldStop
                           then on_runtime (runtime (runtimeCharacterMap roomData)) (called Stop) fw
                           else fw)
                in Inr (fw1\<lparr>roomMaps :=
                              map_set (roomMaps fw1) (secret conversation)
                                (roomData\<lparr>runtimeCharacterMap := charMap\<rparr>)\<rparr>))))"

text \<open>
  \<open>sendToConversation\<close> (lines 577-774).  The generative backend and the runtime's action
  processing are external: \<open>response\<close> is what \<open>generateMessageResponse\<close> returns
  (\<open>None\<close> for no response) and \<open>acted\<close> is the message that \<open>processActions\<close> hands to the
  collector callback (\<open>None\<close> when the callback is not called).  \<open>functions\<close> is an array,
  hence truthy: the guard of line 633 always holds.  The handler and the validator of an
  installed action are closures run by the runtime; they are not part of \<open>Action\<close>.
\<close>

fun join :: "string \<Rightarrow> string list \<Rightarrow> string" where
  "join sep [] = []"
| "join sep [x] = x"
| "join sep (x # y # ys) = x @ sep @ join sep (y # ys)"

definition install :: "CharacterFunction \<Rightarrow> Action" where
  "install func =
     \<lparr>Action.name = CharacterFunction.name func,
      description = CharacterFunction.description func,
      similes = CharacterFunction.similes func,
      examples = map (map (\<lambda>ex. \<lparr>ActionExample.user = Example.user ex,
                                    content = \<lparr>text' = Example.content ex, action = None,
                                               source = None, data = None\<rparr>\<rparr>))
                   (CharacterFunction.examples func),
      parameters = CharacterFunction.parameters func,
      suppressInitialMessage = False\<rparr>"

record Call =
  name :: string
  message :: string
  parameters :: "(string \<times> string) list"

datatype SendResult =
    Failure nat string
  | Reply "string option" "Call list"

definition calls_of :: "Content list \<Rightarrow> Call list" where
  "calls_of respContent =
     concat (map (\<lambda>r. case (action r, Content.data r) of
                         (Some a, Some d) \<Rightarrow>
                           if truthy a
                           then [\<lparr>Call.name = a, message = text' r, parameters = ActionData.parameters d\<rparr>]
                           else []
                       | _ \<Rightarrow> [])
                 respContent)"

definition sendToConversation ::
  "ElizaConversation \<Rightarrow> string \<Rightarrow> string \<Rightarrow> (string \<times> string) list
     \<Rightarrow> Content option \<Rightarrow> Content option \<Rightarrow> ElizaFramework \<Rightarrow> SendResult \<times> ElizaFramework" where
  "sendToConversation conversation msg playerId context response acted fw =
     (case map_get (roomMaps fw) (secret conversation) of
        None \<Rightarrow> (Failure 404 ''Room not found'', fw)
      | Some roomData \<Rightarrow>
          (case (case find (\<lambda>u. User.id' u = playerId) (RoomData.users roomData) of
                   None \<Rightarrow> None
                 | Some u \<Rightarrow> if truthy (User.name u) then Some (User.name u) else None) of
             None \<Rightarrow> (Failure 404 ''User not found'', fw)
           | Some username \<Rightarrow>
               (let r = runtime (runtimeCharacterMap roomData);
                    memory = \<lparr>Memory.agentId = AgentRuntime.agentId (runtimes fw ! r),
                              userId = playerId, roomId = secret conversation,
                              content = \<lparr>text' = msg, action = None, source = Some ''direct'',
                                         data = None\<rparr>\<rparr>;
                    fw1 = on_runtime r
                            (\<lambda>rt. called (ComposeState memory
                                            (ElizaCharacter.name (RuntimeCharacter.character (runtimeCharacterMap roomData)))
                                            msg
                                            (join [CHR 0x0A]
                                               (map (\<lambda>u. User.name u @ '' ('' @ User.id' u @ '')'')
                                                  (RoomData.users roomData)))
                                            username)
                                    ((called (CreateMemory memory) (called (AddEmbeddingToMemory memory) rt))
                                       \<lparr>providers := [join '','' (map (\<lambda>c. fst c @ ''='' @ snd c) context)],
                                        actions := map install
                                                     (ElizaCharacterOptions.functions'
                                                        (options (RuntimeCharacter.character
                                                                    (runtimeCharacterMap roomData))))\<rparr>))
                            fw
                in case response of
                     None \<Rightarrow> (Failure 500 ''Failed to generate message'', fw1)
                   | Some resp \<Rightarrow>
                       (let responseMessage =
                              \<lparr>Memory.agentId = AgentRuntime.agentId (runtimes fw ! r),
                               userId = playerId, roomId = secret conversation, content = resp\<rparr>;
                            fw2 = on_runtime r
                                    (\<lambda>rt. called (Evaluate memory)
                                            (called (ProcessActions memory [responseMessage])
                                              (called UpdateRecentMessageState
                                                (called (CreateMemory responseMessage)
                                                  (called (AddEmbeddingToMemory responseMessage) rt)))))
                                    fw1;
                            shouldSuppressInitialMessage =
                              (case find (\<lambda>a. Some (Action.name a) = action resp)
                                      (actions (runtimes fw2 ! r)) of
                                 None \<Rightarrow> False
                               | Some a \<Rightarrow> suppressInitialMessage a);
                            respContent =
                              (if \<not> shouldSuppressInitialMessage
                               then (case acted of Some m \<Rightarrow> [resp, m] | None \<Rightarrow> [resp])
                               else (case acted of Some m \<Rightarrow> [m] | None \<Rightarrow> []))
                        in (Reply (map_option text' (find (\<lambda>c. truthy (text' c)) respContent))
                              (calls_of respContent),
                            fw2)))))"

section \<open>Runs of the framework\<close>

text \<open>
  One call of a state-changing public operation.  For \<open>createConversation\<close> the room id
  answered by the adapter is non-empty and is not one that the identity map already holds:
  the adapter hands out a new id for a new room.
\<close>

inductive step :: "ElizaFramework \<Rightarrow> ElizaFramework \<Rightarrow> bool" where
  step_start: "start fw = Inr fw' \<Longrightarrow> step fw fw'"
| step_getOrCreateCharacter: "step fw (snd (getOrCreateCharacter aid c fw))"
| step_loadCharacter: "loadCharacter k fw = Inr fw' \<Longrightarrow> step fw fw'"
| step_stop: "step fw (stop fw)"
| step_createConversation:
    "rid \<noteq> [] \<Longrightarrow> rid \<notin> snd ` set (conversationIdMap fw)
       \<Longrightarrow> step fw (snd (createConversation rid k us tok fw))"
| step_finishConversation: "step fw (finishConversation conversation fw)"
| step_setConversationUsers: "step fw (setConversationUsers conversation us fw)"
| step_setConversationCharacter: "setConversationCharacter conversation k fw = Inr fw' \<Longrightarrow> step fw fw'"
| step_sendToConversation:
    "step fw (snd (sendToConversation conversation msg playerId context response acted fw))"

inductive reachable :: "ElizaFramework \<Rightarrow> bool" where
  reachable_new: "reachable (new_ElizaFramework db prov key started)"
| reachable_step: "reachable fw \<Longrightarrow> step fw fw' \<Longrightarrow> reachable fw'"

section \<open>Predicates used by the properties\<close>



text \<open>The shape of the in-memory maps that every run maintains.\<close>

definition wf :: "ElizaFramework \<Rightarrow> bool" where
  "wf fw =
     (distinct (map fst (runtimeCharacterMaps fw))
      \<and> distinct (map fst (conversationIdMap fw))
      \<and> distinct (map snd (conversationIdMap fw))
      \<and> list_all (\<lambda>entry. 0 < fst entry \<and> fst entry \<le> conversationCount fw \<and> snd entry \<noteq> []
                             \<and> map_get (roomMaps fw) (snd entry) \<noteq> None)
            (conversationIdMap fw)
      \<and> list_all (\<lambda>entry. runtime (snd entry) < length (runtimes fw)) (runtimeCharacterMaps fw)
      \<and> list_all (\<lambda>entry. runtime (runtimeCharacterMap (snd entry)) < length (runtimes fw))
            (roomMaps fw))"

section \<open>Example states\<close>

definition ava :: ElizaCharacterOptions where
  "ava = \<lparr>ElizaCharacterOptions.name = ''A'', bio = [], lore = [], knowledge = [], topics = [],
          adjectives = [], style = [], messageExamples = [], functions' = []\<rparr>"

definition bea :: ElizaCharacterOptions where
  "bea = \<lparr>ElizaCharacterOptions.name = ''B'', bio = [], lore = [], knowledge = [], topics = [],
          adjectives = [], style = [], messageExamples = [], functions' = []\<rparr>"

definition bob :: User where
  "bob = \<lparr>User.id' = ''u-bob'', name = ''Bob''\<rparr>"

definition zed :: User where
  "zed = \<lparr>User.id' = ''u-zed'', name = ''Zed''\<rparr>"

definition db0 :: Adapter where
  "db0 = \<lparr>rooms = [], participants = [], calls = []\<rparr>"

definition fw0 :: ElizaFramework where
  "fw0 = new_ElizaFramework db0 ''openai'' ''key'' False"

definition fw_ava :: ElizaFramework where
  "fw_ava = snd (getOrCreateCharacter ''agent-a'' ava fw0)"

definition fw_room1 :: ElizaFramework where
  "fw_room1 = snd (createConversation ''room-1'' (new_ElizaCharacter ''A'' ava) [zed] None fw_ava)"

definition conv1 :: ElizaConversation where
  "conv1 = \<lparr>ElizaConversation.id' = 1, secret = ''room-1'', character = new_ElizaCharacter ''A'' ava,
            users = [], persistenceToken = None, data = no_data\<rparr>"

definition fw_ab :: ElizaFramework where
  "fw_ab = snd (getOrCreateCharacter ''agent-b'' bea fw_ava)"

definition fw_two :: ElizaFramework where
  "fw_two =
     snd (createConversation ''room-2'' (new_ElizaCharacter ''A'' ava) [bob] None
            (snd (createConversation ''room-1'' (new_ElizaCharacter ''A'' ava) [zed] None fw_ab)))"

section \<open>Facts about the JavaScript maps and the adapter\<close>

lemma map_get_map_set: "map_get (map_set m k v) k' = (if k' = k then Some v else map_get m k')"
  by (induction m) auto


lemma map_get_Some_mem: "map_get m k = Some v \<Longrightarrow> (k, v) \<in> set m"
  by (induction m) (auto split: if_splits)

lemma map_get_None_iff: "map_get m k = None \<longleftrightarrow> k \<notin> fst ` set m"
  by (induction m) (auto split: if_splits)

lemma keys_map_set:
  "map fst (map_set m k v) = (if k \<in> fst ` set m then map fst m else map fst m @ [k])"
proof (induction m)
  case Nil
  show ?case by simp
next
  case (Cons a m)
  then show ?case by (cases a) force
qed

lemma find_None_ids: "find (\<lambda>u. User.id' u = p) us = None \<longleftrightarrow> p \<notin> User.id' ` set us"
  by (auto simp: find_None_iff)



lemma roomMaps_on_runtime [simp]: "roomMaps (on_runtime r f fw) = roomMaps fw"
  and adapter_on_runtime [simp]: "adapter (on_runtime r f fw) = adapter fw"
  and idMap_on_runtime [simp]: "conversationIdMap (on_runtime r f fw) = conversationIdMap fw"
  and registry_on_runtime [simp]: "runtimeCharacterMaps (on_runtime r f fw) = runtimeCharacterMaps fw"
  and count_on_runtime [simp]: "conversationCount (on_runtime r f fw) = conversationCount fw"
  by (simp_all add: on_runtime_def)


lemma addMissing_fields [simp]:
  "roomMaps (addMissing r ps rid us fw) = roomMaps fw"
  "conversationIdMap (addMissing r ps rid us fw) = conversationIdMap fw"
  "runtimeCharacterMaps (addMissing r ps rid us fw) = runtimeCharacterMaps fw"
  "conversationCount (addMissing r ps rid us fw) = conversationCount fw"
  "rooms (adapter (addMissing r ps rid us fw)) = rooms (adapter fw)"
  by (induction us arbitrary: fw) (auto simp: addParticipant_def Let_def)

lemma removeStale_rooms [simp]: "rooms (removeStale us rid ps db) = rooms db"
  by (induction ps arbitrary: db) (auto simp: removeParticipant_def)



subsection \<open>Membership reconcile\<close>





lemma fw_room1_roomMaps:
  "roomMaps fw_room1 =
     [(''room-1'', \<lparr>RoomData.users = [zed],
                    runtimeCharacterMap = \<lparr>runtime = 0, character = new_ElizaCharacter ''A'' ava\<rparr>\<rparr>)]"
  by (simp add: fw_room1_def fw_ava_def fw0_def db0_def getOrCreateCharacter_def
      new_ElizaFramework_def map_has_def createConversation_def new_ElizaCharacter_def Let_def
      setConversationUsers_def ava_def)


subsection \<open>Frame facts\<close>

lemma map_set_fresh: "k \<notin> fst ` set m \<Longrightarrow> map_set m k v = m @ [(k, v)]"
  by (induction m) (auto split: if_splits)



lemma map_set_values_present:
  "map_get m k \<noteq> None \<Longrightarrow> map fst (map_set m k v) = map fst m"
  by (simp add: keys_map_set map_get_None_iff)

lemma set_map_set_subset: "set (map_set m k v) \<subseteq> insert (k, v) (set m)"
  by (induction m) (auto split: if_splits)

lemma length_on_runtime [simp]: "length (runtimes (on_runtime r f fw)) = length (runtimes fw)"
  by (simp add: on_runtime_def)

lemma length_addMissing [simp]: "length (runtimes (addMissing r ps rid us fw)) = length (runtimes fw)"
  by (induction us arbitrary: fw) (auto simp: Let_def)

lemma setConversationUsers_fields [simp]:
  "conversationIdMap (setConversationUsers c us fw) = conversationIdMap fw"
  "runtimeCharacterMaps (setConversationUsers c us fw) = runtimeCharacterMaps fw"
  "conversationCount (setConversationUsers c us fw) = conversationCount fw"
  "rooms (adapter (setConversationUsers c us fw)) = rooms (adapter fw)"
  "length (runtimes (setConversationUsers c us fw)) = length (runtimes fw)"
  by (simp_all add: setConversationUsers_def Let_def split: option.splits)

lemma setConversationUsers_roomMaps:
  "roomMaps (setConversationUsers c us fw) =
     (case map_get (roomMaps fw) (secret c) of
        None \<Rightarrow> roomMaps fw
      | Some rd \<Rightarrow> map_set (roomMaps fw) (secret c) (rd\<lparr>RoomData.users := us\<rparr>))"
  by (simp add: setConversationUsers_def Let_def split: option.splits)

lemma stop_fields [simp]:
  "conversationIdMap (fold (\<lambda>entry. on_runtime (g entry) f) xs fw) = conversationIdMap fw"
  "runtimeCharacterMaps (fold (\<lambda>entry. on_runtime (g entry) f) xs fw) = runtimeCharacterMaps fw"
  "conversationCount (fold (\<lambda>entry. on_runtime (g entry) f) xs fw) = conversationCount fw"
  "roomMaps (fold (\<lambda>entry. on_runtime (g entry) f) xs fw) = roomMaps fw"
  "adapter (fold (\<lambda>entry. on_runtime (g entry) f) xs fw) = adapter fw"
  "length (runtimes (fold (\<lambda>entry. on_runtime (g entry) f) xs fw)) = length (runtimes fw)"
  by (induction xs arbitrary: fw) simp_all

subsection \<open>Every run keeps the maps well-formed\<close>

lemma wf_new: "wf (new_ElizaFramework db prov key started)"
  by (simp add: wf_def new_ElizaFramework_def)

lemma list_all_map_set:
  "list_all P m \<Longrightarrow> P (k, v) \<Longrightarrow> list_all P (map_set m k v)"
  by (induction m) auto

lemma wf_getOrCreateCharacter: "wf fw \<Longrightarrow> wf (snd (getOrCreateCharacter aid c fw))"
  unfolding wf_def getOrCreateCharacter_def map_has_def
  by (auto simp: keys_map_set map_get_None_iff map_set_fresh list_all_iff less_Suc_eq)

lemma wf_on_runtime: "wf fw \<Longrightarrow> wf (on_runtime r f fw)"
  by (simp add: wf_def)

lemma wf_setConversationUsers: "wf fw \<Longrightarrow> wf (setConversationUsers c us fw)"
  unfolding wf_def
  apply (simp add: setConversationUsers_roomMaps split: option.splits)
  apply (auto simp: list_all_iff map_get_map_set dest!: subsetD [OF set_map_set_subset])
  apply (drule map_get_Some_mem)
  apply fastforce
  done


lemma wf_adapter [simp]: "wf (fw\<lparr>adapter := db\<rparr>) = wf fw"
  by (simp add: wf_def)

lemma wf_characters [simp]: "wf (fw\<lparr>characters := cs\<rparr>) = wf fw"
  by (simp add: wf_def)

lemma wf_initialized [simp]: "wf (fw\<lparr>initialized := b\<rparr>) = wf fw"
  by (simp add: wf_def)

lemma wf_fold_on_runtime: "wf fw \<Longrightarrow> wf (fold (\<lambda>entry. on_runtime (g entry) f) xs fw)"
  by (induction xs arbitrary: fw) (simp_all add: wf_on_runtime)

lemma wf_createConversation:
  assumes "wf fw" "rid \<noteq> []" "rid \<notin> snd ` set (conversationIdMap fw)"
  shows "wf (snd (createConversation rid k us tok fw))"
proof (cases "map_get (runtimeCharacterMaps fw) (generatePersonalityHash (options k))")
  case None
  then show ?thesis using assms by (simp add: createConversation_def)
next
  case (Some agent)
  let ?i = "conversationCount fw + 1"
  let ?fw1 = "fw\<lparr>adapter := addParticipant (AgentRuntime.agentId (runtimes fw ! runtime agent)) rid
                              (createRoom tok rid (adapter fw)),
                   conversationCount := ?i,
                   conversationIdMap := map_set (conversationIdMap fw) ?i rid,
                   roomMaps := map_set (roomMaps fw) rid
                                 \<lparr>RoomData.users = [], runtimeCharacterMap = agent\<rparr>\<rparr>"
  have fresh: "?i \<notin> fst ` set (conversationIdMap fw)"
    using assms(1) by (force simp: wf_def list_all_iff)
  have agent: "runtime agent < length (runtimes fw)"
    using assms(1) map_get_Some_mem [OF Some] by (force simp: wf_def list_all_iff)
  have "wf ?fw1"
    using assms fresh agent
    apply (simp add: wf_def map_set_fresh list_all_iff map_get_map_set)
    apply (auto dest!: subsetD [OF set_map_set_subset])
    done
  then have "wf (setConversationUsers
                  \<lparr>ElizaConversation.id' = ?i, secret = rid, character = k, users = [],
                   persistenceToken = tok, data = no_data\<rparr> us ?fw1)"
    by (rule wf_setConversationUsers)
  then show ?thesis
    by (simp add: createConversation_def Some Let_def)
qed

lemma wf_setConversationCharacter:
  assumes "wf fw" "setConversationCharacter c k fw = Inr fw'"
  shows "wf fw'"
proof (cases "map_get (roomMaps fw) (secret c)")
  case None
  then show ?thesis using assms by (simp add: setConversationCharacter_def)
next
  case (Some rd)
  show ?thesis
  proof (cases "map_get (runtimeCharacterMaps fw) (generatePersonalityHash (options k))")
    case None
    then show ?thesis using assms Some by (simp add: setConversationCharacter_def)
  next
    case (Some charMap)
    have cm: "runtime charMap < length (runtimes fw)"
      using assms(1) map_get_Some_mem [OF Some] by (force simp: wf_def list_all_iff)
    have keep: "\<And>g. wf g \<Longrightarrow> map_get (roomMaps g) (secret c) = Some rd
                   \<Longrightarrow> length (runtimes g) = length (runtimes fw)
                   \<Longrightarrow> wf (g\<lparr>roomMaps := map_set (roomMaps g) (secret c)
                                               (rd\<lparr>runtimeCharacterMap := charMap\<rparr>)\<rparr>)"
      using cm
      apply (simp add: wf_def list_all_iff map_get_map_set)
      apply (auto dest!: subsetD [OF set_map_set_subset])
      done
    let ?g = "on_runtime (runtime (runtimeCharacterMap rd)) (called Stop) fw"
    have "wf (?g\<lparr>roomMaps := map_set (roomMaps ?g) (secret c) (rd\<lparr>runtimeCharacterMap := charMap\<rparr>)\<rparr>)"
      by (rule keep) (simp_all add: wf_on_runtime assms(1) \<open>map_get (roomMaps fw) (secret c) = Some rd\<close>)
    moreover have "wf (fw\<lparr>roomMaps := map_set (roomMaps fw) (secret c) (rd\<lparr>runtimeCharacterMap := charMap\<rparr>)\<rparr>)"
      by (rule keep) (simp_all add: assms(1) \<open>map_get (roomMaps fw) (secret c) = Some rd\<close>)
    ultimately show ?thesis
      using assms(2) \<open>map_get (roomMaps fw) (secret c) = Some rd\<close> Some
      by (simp add: setConversationCharacter_def Let_def split: if_splits)
  qed
qed

lemma wf_loadCharacter: "wf fw \<Longrightarrow> loadCharacter k fw = Inr fw' \<Longrightarrow> wf fw'"
  by (auto simp: loadCharacter_def wf_on_runtime split: if_splits option.splits)

lemma wf_sendToConversation:
  "wf fw \<Longrightarrow> wf (snd (sendToConversation c msg playerId context response acted fw))"
  by (simp add: sendToConversation_def Let_def wf_on_runtime split: option.splits)

lemma wf_step: "step fw fw' \<Longrightarrow> wf fw \<Longrightarrow> wf fw'"
proof (induction rule: step.induct)
  case (step_start fw fw')
  then show ?case by (auto simp: start_def split: if_splits)
next
  case (step_stop fw)
  then show ?case by (simp add: stop_def wf_fold_on_runtime)
next
  case (step_finishConversation fw conversation)
  then show ?case by (simp add: finishConversation_def)
qed (blast intro: wf_getOrCreateCharacter wf_loadCharacter wf_createConversation
       wf_setConversationUsers wf_setConversationCharacter wf_sendToConversation)+

lemma reachable_wf: "reachable fw \<Longrightarrow> wf fw"
  by (induction rule: reachable.induct) (blast intro: wf_new wf_step)+

section \<open>Resolving conversations\<close>










subsection \<open>After finishConversation\<close>






section \<open>The character registry\<close>

lemma getOrCreateCharacter_registered:
  "map_has (runtimeCharacterMaps (snd (getOrCreateCharacter aid d fw))) (generatePersonalityHash d)"
  by (simp add: getOrCreateCharacter_def map_has_def map_get_map_set)

lemma reachable_fw_ava: "reachable fw_ava"
  unfolding fw_ava_def fw0_def
  by (rule reachable_step [OF reachable_new step_getOrCreateCharacter])

text \<open>
  C6.  When a RuntimeBinding already exists for the hash of \<open>d\<close>,
  \<open>getOrCreateCharacter(d)\<close> leaves the whole state as it is (no new runtime, no new
  registry entry) and returns a new character handle built from \<open>d\<close>; the handle always
  wraps \<open>d\<close>; a second call changes nothing that the first call left; and in every state
  that a run reaches the registry has at most one entry per hash.
\<close>

theorem getOrCreateCharacter_idempotent:
  "(map_has (runtimeCharacterMaps fw) (generatePersonalityHash d)
      \<longrightarrow> getOrCreateCharacter aid d fw = (new_ElizaCharacter (ElizaCharacterOptions.name d) d, fw))
   \<and> options (fst (getOrCreateCharacter aid d fw)) = d
   \<and> snd (getOrCreateCharacter aid' d (snd (getOrCreateCharacter aid d fw)))
       = snd (getOrCreateCharacter aid d fw)
   \<and> (reachable fw \<longrightarrow> distinct (map fst (runtimeCharacterMaps fw)))"
proof -
  have "snd (getOrCreateCharacter aid' d (snd (getOrCreateCharacter aid d fw)))
          = snd (getOrCreateCharacter aid d fw)"
    using getOrCreateCharacter_registered [of aid d fw]
    by (subst getOrCreateCharacter_def) simp
  moreover have "reachable fw \<longrightarrow> distinct (map fst (runtimeCharacterMaps fw))"
    using reachable_wf by (auto simp: wf_def)
  ultimately show ?thesis
    by (simp add: getOrCreateCharacter_def new_ElizaCharacter_def)
qed

theorem getOrCreateCharacter_idempotent_witness:
  "map_has (runtimeCharacterMaps fw_ava) (generatePersonalityHash ava)
   \<and> getOrCreateCharacter ''agent-2'' ava fw_ava = (new_ElizaCharacter ''A'' ava, fw_ava)
   \<and> length (runtimes fw_ava) = 1
   \<and> reachable fw_ava
   \<and> distinct (map fst (runtimeCharacterMaps fw_ava))"
proof -
  have h: "map_has (runtimeCharacterMaps fw_ava) (generatePersonalityHash ava)"
    unfolding fw_ava_def by (rule getOrCreateCharacter_registered)
  have l: "length (runtimes fw_ava) = 1"
    by (simp add: fw_ava_def fw0_def getOrCreateCharacter_def new_ElizaFramework_def map_has_def)
  from getOrCreateCharacter_idempotent [of fw_ava ava "''agent-2''" "''agent-2''"] h l reachable_fw_ava
  show ?thesis by (simp add: ava_def)
qed

section \<open>Agent participant\<close>





lemma fw_ava_registry:
  "runtimeCharacterMaps fw_ava =
     [(generatePersonalityHash ava, \<lparr>runtime = 0, character = new_ElizaCharacter ''A'' ava\<rparr>)]"
  by (simp add: fw_ava_def fw0_def getOrCreateCharacter_def new_ElizaFramework_def map_has_def ava_def)





section \<open>The message pipeline\<close>

text \<open>
  C8.  \<open>sendToConversation\<close> returns \<open>{status: 404}\<close> and leaves the state untouched when
  the conversation has no RoomBinding, and when the sender's id is not in the roster; when
  the backend returns no response it returns \<open>{status: 500}\<close>, and then the only calls made
  on the runtime are those of the steps before the generation (the inbound memory and the
  composed state): no response memory, no action processing, no evaluation, and nothing
  but the store of runtimes has changed.
\<close>

theorem sendToConversation_failures:
  "(map_get (roomMaps fw) (secret c) = None
      \<longrightarrow> sendToConversation c msg playerId ctx response acted fw = (Failure 404 ''Room not found'', fw))
   \<and> (map_get (roomMaps fw) (secret c) = Some rd \<and> playerId \<notin> User.id' ` set (RoomData.users rd)
      \<longrightarrow> sendToConversation c msg playerId ctx response acted fw = (Failure 404 ''User not found'', fw))
   \<and> (map_get (roomMaps fw) (secret c) = Some rd
        \<and> find (\<lambda>u. User.id' u = playerId) (RoomData.users rd) = Some u \<and> truthy (User.name u)
        \<and> runtime (runtimeCharacterMap rd) < length (runtimes fw)
      \<longrightarrow> fst (sendToConversation c msg playerId ctx None acted fw) = Failure 500 ''Failed to generate message''
          \<and> (\<exists>m agentName ps.
                AgentRuntime.calls
                  (runtimes (snd (sendToConversation c msg playerId ctx None acted fw))
                     ! runtime (runtimeCharacterMap rd))
                = AgentRuntime.calls (runtimes fw ! runtime (runtimeCharacterMap rd))
                    @ [AddEmbeddingToMemory m, CreateMemory m, ComposeState m agentName msg ps (User.name u)]
                \<and> Memory.content m = \<lparr>text' = msg, action = None, source = Some ''direct'', data = None\<rparr>)
          \<and> snd (sendToConversation c msg playerId ctx None acted fw)
              = fw\<lparr>runtimes := runtimes (snd (sendToConversation c msg playerId ctx None acted fw))\<rparr>)"
proof -
  have nf: "playerId \<notin> User.id' ` set (RoomData.users rd)
              \<Longrightarrow> find (\<lambda>u. User.id' u = playerId) (RoomData.users rd) = None"
    by (simp add: find_None_ids)
  show ?thesis
    by (auto simp: sendToConversation_def Let_def nf on_runtime_def called_def)
qed


lemma fw_room1_runtimes: "length (runtimes fw_room1) = 1"
  by (simp add: fw_room1_def fw_ava_def fw0_def getOrCreateCharacter_def new_ElizaFramework_def
      map_has_def createConversation_def new_ElizaCharacter_def Let_def)

theorem sendToConversation_failures_witness:
  "map_get (roomMaps fw0) (secret conv1) = None
   \<and> sendToConversation conv1 ''hello'' ''u-zed'' [] None None fw0 = (Failure 404 ''Room not found'', fw0)
   \<and> map_get (roomMaps fw_room1) (secret conv1)
       = Some \<lparr>RoomData.users = [zed],
               runtimeCharacterMap = \<lparr>runtime = 0, character = new_ElizaCharacter ''A'' ava\<rparr>\<rparr>
   \<and> ''u-bob'' \<notin> User.id' ` set [zed]
   \<and> sendToConversation conv1 ''hello'' ''u-bob'' [] None None fw_room1
       = (Failure 404 ''User not found'', fw_room1)
   \<and> find (\<lambda>u. User.id' u = ''u-zed'') [zed] = Some zed \<and> truthy (User.name zed)
   \<and> 0 < length (runtimes fw_room1)
   \<and> fst (sendToConversation conv1 ''hello'' ''u-zed'' [] None None fw_room1)
       = Failure 500 ''Failed to generate message''"
proof -
  let ?rd = "\<lparr>RoomData.users = [zed],
               runtimeCharacterMap = \<lparr>runtime = 0, character = new_ElizaCharacter ''A'' ava\<rparr>\<rparr>"
  have r0: "map_get (roomMaps fw0) (secret conv1) = None"
    by (simp add: fw0_def new_ElizaFramework_def)
  have r1: "map_get (roomMaps fw_room1) (secret conv1) = Some ?rd"
    by (simp add: fw_room1_roomMaps conv1_def)
  have z: "find (\<lambda>u. User.id' u = ''u-zed'') [zed] = Some zed" "truthy (User.name zed)"
    "''u-bob'' \<notin> User.id' ` set [zed]"
    by (simp_all add: zed_def truthy_def)
  from sendToConversation_failures [where fw = fw0 and c = conv1 and msg = "''hello''"
        and playerId = "''u-zed''" and ctx = "[]" and response = None and acted = None
        and rd = ?rd and u = zed]
    sendToConversation_failures [where fw = fw_room1 and c = conv1 and msg = "''hello''"
        and playerId = "''u-bob''" and ctx = "[]" and response = None and acted = None
        and rd = ?rd and u = zed]
    sendToConversation_failures [where fw = fw_room1 and c = conv1 and msg = "''hello''"
        and playerId = "''u-zed''" and ctx = "[]" and response = None and acted = None
        and rd = ?rd and u = zed]
    r0 r1 z fw_room1_runtimes
  show ?thesis by simp
qed





section \<open>The serialization can be read back\<close>




























section \<open>Two concrete hashes\<close>

lemma replicate_numeral: "replicate (numeral k) x = x # replicate (pred_numeral k) x"
  by (simp add: numeral_eq_Suc)

lemma JSON_ava:
  "JSON_stringify ava =
     ''{\"name\":\"A\",\"bio\":[],\"lore\":[],\"knowledge\":[],\"topics\":[],\"adjectives\":[],\"style\":[],\"messageExamples\":[],\"functions\":[]}''"
  by (simp add: ava_def JSON_stringify_def json_object_def json_string_def json_strings_def
      json_array_def json_transcripts_def json_escape_def)

lemma JSON_bea:
  "JSON_stringify bea =
     ''{\"name\":\"B\",\"bio\":[],\"lore\":[],\"knowledge\":[],\"topics\":[],\"adjectives\":[],\"style\":[],\"messageExamples\":[],\"functions\":[]}''"
  by (simp add: bea_def JSON_stringify_def json_object_def json_string_def json_strings_def
      json_array_def json_transcripts_def json_escape_def)

lemmas sha256_eval =
  pad_def len64_def replicate_numeral H0_def K256_def compress_def be32_def wnext_def
  sigma0_def sigma1_def Sigma0_def Sigma1_def rotr_def Ch_def Maj_def T1_def T2_def round1_def
  add32_def hex32_def hexdigit_def

lemma hash_ava:
  "generatePersonalityHash ava = ''64c5ef5f50b49bd561d81d9a2c0982297f221c49df702ebf339abeaed3115ab1''"
  unfolding generatePersonalityHash_def JSON_ava sha256_hex_def
  by (simp add: sha256_eval)

lemma hash_bea:
  "generatePersonalityHash bea = ''bf331381701733bb843ab36aa4ab9848f3b32726344f6a5025fb7bc72d8dc0aa''"
  unfolding generatePersonalityHash_def JSON_bea sha256_hex_def
  by (simp add: sha256_eval)

lemma hash_ava_bea:
  "generatePersonalityHash ava \<noteq> generatePersonalityHash bea"
  "generatePersonalityHash bea \<noteq> generatePersonalityHash ava"
  by (simp_all add: hash_ava hash_bea)

section \<open>Reassigning the character of a conversation\<close>

lemma name_ava: "ElizaCharacterOptions.name ava = ''A''"
  by (simp add: ava_def)

lemma name_bea: "ElizaCharacterOptions.name bea = ''B''"
  by (simp add: bea_def)

lemma fw_ab_registry:
  "runtimeCharacterMaps fw_ab =
     [(generatePersonalityHash ava, \<lparr>runtime = 0, character = new_ElizaCharacter ''A'' ava\<rparr>),
      (generatePersonalityHash bea, \<lparr>runtime = 1, character = new_ElizaCharacter ''B'' bea\<rparr>)]"
  by (simp add: fw_ab_def getOrCreateCharacter_def fw_ava_registry map_has_def hash_ava_bea
      fw_ava_def fw0_def new_ElizaFramework_def name_ava name_bea)

lemma createConversation_registry:
  "runtimeCharacterMaps (snd (createConversation rid k us tok fw)) = runtimeCharacterMaps fw"
  by (simp add: createConversation_def Let_def split: option.splits)

lemma createConversation_length:
  "length (runtimes (snd (createConversation rid k us tok fw))) = length (runtimes fw)"
  by (simp add: createConversation_def Let_def split: option.splits)

lemma stopped_called: "stopped (called c rt) = (c = Stop \<or> stopped rt)"
  by (auto simp: stopped_def called_def)

lemma stopped_addMissing:
  "stopped (runtimes (addMissing r ps rid us fw) ! j) = stopped (runtimes fw ! j)"
proof (induction us arbitrary: fw)
  case Nil
  show ?case by simp
next
  case (Cons u us)
  have "stopped (runtimes (on_runtime r (called (EnsureConnection a rid n n' k)) fw) ! j)
          = stopped (runtimes fw ! j)" for a n n' k
    by (cases "r < length (runtimes fw)"; cases "j = r")
       (simp_all add: on_runtime_def stopped_called list_update_beyond not_less)
  then show ?case by (simp add: Cons.IH Let_def)
qed

lemma stopped_createConversation:
  "stopped (runtimes (snd (createConversation rid k us tok fw)) ! j) = stopped (runtimes fw ! j)"
  by (simp add: createConversation_def setConversationUsers_def Let_def stopped_addMissing
      split: option.splits)

lemma fw_two_registry: "runtimeCharacterMaps fw_two = runtimeCharacterMaps fw_ab"
  by (simp add: fw_two_def createConversation_registry)

lemma fw_two_length: "length (runtimes fw_two) = 2"
  by (simp add: fw_two_def createConversation_length fw_ab_def getOrCreateCharacter_def
      fw_ava_registry map_has_def hash_ava_bea fw_ava_def fw0_def new_ElizaFramework_def)

lemma fw_two_running: "\<not> stopped (runtimes fw_two ! 0)"
proof -
  have "\<not> stopped (runtimes fw_ab ! 0)"
    by (simp add: fw_ab_def getOrCreateCharacter_def fw_ava_registry map_has_def hash_ava_bea
        fw_ava_def fw0_def new_ElizaFramework_def stopped_def new_AgentRuntime_def)
  then show ?thesis
    by (simp add: fw_two_def stopped_createConversation)
qed

lemma map_set_map_set: "map_set (map_set m k v) k v' = map_set m k v'"
  by (induction m) auto

lemma createConversation_roomMaps:
  assumes "map_get (runtimeCharacterMaps fw) (generatePersonalityHash (options k)) = Some agent"
  shows "roomMaps (snd (createConversation rid k us tok fw))
           = map_set (roomMaps fw) rid \<lparr>RoomData.users = us, runtimeCharacterMap = agent\<rparr>"
  using assms
  by (simp add: createConversation_def Let_def setConversationUsers_roomMaps map_get_map_set
      map_set_map_set)

lemma fw_ab_roomMaps: "roomMaps fw_ab = []"
  by (simp add: fw_ab_def getOrCreateCharacter_def fw_ava_def fw0_def new_ElizaFramework_def)

lemma fw_two_roomMaps:
  "roomMaps fw_two =
     [(''room-1'', \<lparr>RoomData.users = [zed],
                    runtimeCharacterMap = \<lparr>runtime = 0, character = new_ElizaCharacter ''A'' ava\<rparr>\<rparr>),
      (''room-2'', \<lparr>RoomData.users = [bob],
                    runtimeCharacterMap = \<lparr>runtime = 0, character = new_ElizaCharacter ''A'' ava\<rparr>\<rparr>)]"
proof -
  let ?agent = "\<lparr>runtime = 0, character = new_ElizaCharacter ''A'' ava\<rparr>"
  let ?one = "snd (createConversation ''room-1'' (new_ElizaCharacter ''A'' ava) [zed] None fw_ab)"
  have a: "map_get (runtimeCharacterMaps fw_ab)
             (generatePersonalityHash (options (new_ElizaCharacter ''A'' ava))) = Some ?agent"
    by (simp add: fw_ab_registry new_ElizaCharacter_def)
  then have b: "map_get (runtimeCharacterMaps ?one)
                  (generatePersonalityHash (options (new_ElizaCharacter ''A'' ava))) = Some ?agent"
    by (simp only: createConversation_registry)
  have "roomMaps fw_two
          = map_set (map_set (roomMaps fw_ab) ''room-1'' \<lparr>RoomData.users = [zed], runtimeCharacterMap = ?agent\<rparr>)
              ''room-2'' \<lparr>RoomData.users = [bob], runtimeCharacterMap = ?agent\<rparr>"
    unfolding fw_two_def
    by (simp only: createConversation_roomMaps [OF b] createConversation_roomMaps [OF a])
  then show ?thesis by (simp add: fw_ab_roomMaps)
qed

text \<open>
  C1.  Two conversations, \<open>room-1\<close> and \<open>room-2\<close>, are bound to character \<open>A\<close>; character
  \<open>B\<close> is registered and bound to no room.  \<open>setConversationCharacter\<close> on \<open>room-1\<close> with
  \<open>B\<close> returns normally and stops the runtime of \<open>A\<close>, which was running and which the
  RoomBinding of \<open>room-2\<close> references before and after the call.
\<close>

theorem setConversationCharacter_stops_shared_runtime:
  "(case setConversationCharacter conv1 (new_ElizaCharacter ''B'' bea) fw_two of
      Inl e \<Rightarrow> False
    | Inr fw' \<Rightarrow>
        \<not> stopped (runtimes fw_two ! 0)
        \<and> map_option (\<lambda>rd. runtime (runtimeCharacterMap rd)) (map_get (roomMaps fw_two) ''room-2'') = Some 0
        \<and> stopped (runtimes fw' ! 0)
        \<and> map_option (\<lambda>rd. runtime (runtimeCharacterMap rd)) (map_get (roomMaps fw') ''room-2'') = Some 0
        \<and> map_option (\<lambda>rd. runtime (runtimeCharacterMap rd)) (map_get (roomMaps fw') ''room-1'') = Some 1)"
  using fw_two_length fw_two_running
  by (simp add: setConversationCharacter_def conv1_def fw_two_roomMaps fw_two_registry
      fw_ab_registry new_ElizaCharacter_def hash_ava_bea Let_def stopped_called on_runtime_def)

section \<open>Failure reporting\<close>




section \<open>The personality hash is not injective\<close>














end
